theory Spec2Isabelle
  imports Main "HOL-Library.Sublist"
begin

section \<open>The suggestion crawler of \<^verbatim>\<open>google_suggestion_crawler.py\<close>\<close>

text \<open>
  The program is one class, \<^verbatim>\<open>SuggestionWorker\<close>, whose \<^verbatim>\<open>run\<close> method starts
  \<^verbatim>\<open>num_workers\<close> threads that share a FIFO queue of \<^verbatim>\<open>(query, depth)\<close> tasks, two
  sets (\<^verbatim>\<open>results\<close>, \<^verbatim>\<open>processed_queries\<close>), one lock, one flag and one output file.
  The model is an interleaving one: the state holds the shared objects, a program counter
  for every worker thread and one for the main thread; an event says which thread executes
  its next statement and what the environment hands to it (an HTTP reply, a queue timeout,
  a failing file write, a keyboard interrupt). A run is a list of events.
\<close>

subsection \<open>Strings\<close>

text \<open>
  Python strings are modelled as \<^typ>\<open>string\<close>: a \<^typ>\<open>char\<close> is a code point below
  256 (ASCII and Latin-1), and text with other code points is outside the model.
  On these code points \<^verbatim>\<open>str.lower\<close> works character by character: the letters
  \<^verbatim>\<open>A\<close> to \<^verbatim>\<open>Z\<close> (65 to 90) and the Latin-1 capitals 192 to 222 but for the
  multiplication sign 215 move up by 32, every other code point stays. \<^verbatim>\<open>str.strip\<close>
  removes at both ends the code points for which \<^verbatim>\<open>str.isspace\<close> holds: 9 to 13, 28 to
  32, 133 and 160. \<^verbatim>\<open>a in b\<close> on two strings is \<^const>\<open>sublist\<close>.
\<close>

definition lower_char :: "char \<Rightarrow> char" where
  "lower_char ch =
     (let n = of_char ch :: nat in
      if (65 \<le> n \<and> n \<le> 90) \<or> (192 \<le> n \<and> n \<le> 222 \<and> n \<noteq> 215)
      then char_of (n + 32) else ch)"

definition lower :: "string \<Rightarrow> string" where
  "lower s = map lower_char s"

definition isspace :: "char \<Rightarrow> bool" where
  "isspace ch \<longleftrightarrow>
     (let n = of_char ch :: nat in (9 \<le> n \<and> n \<le> 13) \<or> (28 \<le> n \<and> n \<le> 32) \<or> n = 133 \<or> n = 160)"

definition strip :: "string \<Rightarrow> string" where
  "strip s = rev (dropWhile isspace (rev (dropWhile isspace s)))"

text \<open>\<^verbatim>\<open>os.path.join(a, b)\<close> on POSIX for a relative second component.\<close>

definition path_join :: "string \<Rightarrow> string \<Rightarrow> string" where
  "path_join a b = (if a = [] \<or> last a = CHR ''/'' then a @ b else a @ ''/'' @ b)"

subsection \<open>The crawler object: the fields fixed by the constructor\<close>

text \<open>
  \<^verbatim>\<open>__init__\<close> stores the lowercased keyword, the two numbers and the output path, which is
  built from the keyword as given and the time stamp (\<^verbatim>\<open>datetime.now\<close>, an input of the
  model). The mutable fields it initialises are in the state below.
\<close>

record crawler =
  main_keyword :: string
  num_workers :: int
  max_depth :: int
  output_dir :: string
  output_file :: string

definition SuggestionWorker :: "string \<Rightarrow> string \<Rightarrow> int \<Rightarrow> int \<Rightarrow> string \<Rightarrow> crawler" where
  "SuggestionWorker keyword dir workers depth timestamp =
     \<lparr> main_keyword = lower keyword,
       num_workers = workers,
       max_depth = depth,
       output_dir = dir,
       output_file = path_join dir (''suggestions_'' @ keyword @ ''_'' @ timestamp @ ''.txt'') \<rparr>"

text \<open>
  \<^verbatim>\<open>main\<close> reads a line, strips it and builds the crawler with two workers and depth five
  in the directory \<^verbatim>\<open>results\<close>.
\<close>

definition main :: "string \<Rightarrow> string \<Rightarrow> crawler" where
  "main typed timestamp = SuggestionWorker (strip typed) ''results'' 2 5 timestamp"

subsection \<open>The lookup\<close>

text \<open>
  What the HTTP exchange and the XML parser hand to \<^verbatim>\<open>get_suggestions\<close>: a
  \<^verbatim>\<open>requests.RequestException\<close> (with the name of its class), an \<^verbatim>\<open>ET.ParseError\<close> (with its
  message), or a parsed document, of which the code reads the \<^verbatim>\<open>data\<close> attribute of every
  \<^verbatim>\<open>suggestion\<close> element; \<^verbatim>\<open>Element.get\<close> gives \<^verbatim>\<open>None\<close> for an element without the
  attribute.
\<close>

datatype response =
    RequestException string
  | ParseError string
  | Document "string option list"

datatype error = AttributeError | OSError

datatype line =
    Processing int string
  | NetworkError string string
  | XmlError string string
  | TaskError error
  | Interrupted
  | Summary nat string

text \<open>
  The two \<^verbatim>\<open>except\<close> clauses print and return the empty list. The list comprehension
  calls \<^verbatim>\<open>s.lower()\<close> on every entry, so an entry \<^verbatim>\<open>None\<close> raises \<^verbatim>\<open>AttributeError\<close>,
  which no clause of \<^verbatim>\<open>get_suggestions\<close> catches. The result is the printed lines and
  the returned list or the exception raised.
\<close>

definition get_suggestions :: "crawler \<Rightarrow> string \<Rightarrow> response \<Rightarrow> line list \<times> (error + string list)" where
  "get_suggestions c query r =
     (case r of
        RequestException kind \<Rightarrow> ([NetworkError query kind], Inr [])
      | ParseError msg \<Rightarrow> ([XmlError query msg], Inr [])
      | Document suggestions \<Rightarrow>
          if None \<in> set suggestions then ([], Inl AttributeError)
          else ([], Inr (filter (\<lambda>s. sublist (main_keyword c) (lower s)) (map the suggestions))))"

subsection \<open>The shared state and the threads\<close>

text \<open>
  A task is the pair the queue holds; the query \<^verbatim>\<open>None\<close> is the stop signal.
\<close>

type_synonym task = "string option \<times> int"

text \<open>
  Where a worker thread is in \<^verbatim>\<open>worker\<close>:
  \<^item> \<open>Unstarted\<close>: its \<^verbatim>\<open>Thread.start\<close> has not happened;
  \<^item> \<open>Top\<close>: at the test of the \<^verbatim>\<open>while\<close>;
  \<^item> \<open>Waiting\<close>: blocked in \<^verbatim>\<open>queue.get\<close>;
  \<^item> \<open>TimedOut\<close>: \<^verbatim>\<open>Empty\<close> was raised, the handler has not yet tested the queue;
  \<^item> \<open>Got t\<close>: \<^verbatim>\<open>get\<close> returned \<open>t\<close>, before the tests of lines 113 and 120;
  \<^item> \<open>Claiming q d\<close>: both tests passed, before the \<^verbatim>\<open>print\<close> and the
    \<^verbatim>\<open>processed_queries.add\<close>;
  \<^item> \<open>Fetching q d\<close>: inside \<^verbatim>\<open>get_suggestions\<close>, waiting for the reply;
  \<^item> \<open>AwaitLock ss d\<close>: before \<^verbatim>\<open>with self.lock\<close>, holding the filtered list;
  \<^item> \<open>Recording ss d\<close>: inside the lock, at the head of the \<^verbatim>\<open>for\<close> with \<open>ss\<close> left;
  \<^item> \<open>Adding s ss d\<close>: inside the lock, \<open>s\<close> was found not to be in \<^verbatim>\<open>results\<close>,
    before lines 132 to 134;
  \<^item> \<open>Acking\<close>: the lock is released, before \<^verbatim>\<open>sleep\<close> and \<^verbatim>\<open>task_done\<close>;
  \<^item> \<open>Stopped\<close>: the function has returned.
\<close>

datatype wstate =
    Unstarted
  | Top
  | Waiting
  | TimedOut
  | Got task
  | Claiming string int
  | Fetching string int
  | AwaitLock "string list" int
  | Recording "string list" int
  | Adding string "string list" int
  | Acking
  | Stopped

text \<open>
  Where the main thread is in \<^verbatim>\<open>run\<close>, from the loop that starts the threads on (the
  header line is written and the seed is queued before):
  \<^item> \<open>StartThreads k\<close>: \<open>k\<close> threads are started;
  \<^item> \<open>Join\<close>: in the \<^verbatim>\<open>try\<close>, blocked in \<^verbatim>\<open>queue.join\<close>;
  \<^item> \<open>Sleep2\<close>: \<^verbatim>\<open>join\<close> has returned;
  \<^item> \<open>SendStop k\<close>: \<open>k\<close> stop signals are still to be put;
  \<^item> \<open>JoinThreads\<close>: joining the threads, five seconds each at most;
  \<^item> \<open>Handler\<close>: \<^verbatim>\<open>KeyboardInterrupt\<close> was caught, before the \<^verbatim>\<open>print\<close> and the start
    of \<^verbatim>\<open>cleanup\<close>, which sets the flag;
  \<^item> \<open>Drain\<close>: at the test of the \<^verbatim>\<open>while\<close> of \<^verbatim>\<open>cleanup\<close>;
  \<^item> \<open>DrainGet\<close>: before \<^verbatim>\<open>get_nowait\<close>;
  \<^item> \<open>CleanupStop k\<close>: \<open>k\<close> stop signals of \<^verbatim>\<open>cleanup\<close> are still to be put;
  \<^item> \<open>CleanupJoin\<close>: joining the threads, two seconds each at most;
  \<^item> \<open>Finally\<close>: in the \<^verbatim>\<open>finally\<close> clause;
  \<^item> \<open>Printing\<close>: before the two closing \<^verbatim>\<open>print\<close>s;
  \<^item> \<open>Done\<close>: \<^verbatim>\<open>run\<close> has returned;
  \<^item> \<open>Aborted\<close>: \<^verbatim>\<open>KeyboardInterrupt\<close> has left \<^verbatim>\<open>run\<close>.
\<close>

datatype mstate =
    StartThreads nat
  | Join
  | Sleep2
  | SendStop nat
  | JoinThreads
  | Handler
  | Drain
  | DrainGet
  | CleanupStop nat
  | CleanupJoin
  | Finally
  | Printing
  | Done
  | Aborted

text \<open>
  The mutable state. \<open>queue\<close> and \<open>unfinished\<close> are the \<^verbatim>\<open>Queue\<close> (its items and its
  \<^verbatim>\<open>unfinished_tasks\<close> counter); \<open>lock\<close> is free or held by a worker; \<open>saved\<close> is the
  lines of the output file after the header; \<open>stdout\<close> is what was printed. Two fields
  record history and are read by no step: \<open>requests\<close>, the tasks for which the HTTP lookup
  was made, and \<open>children\<close>, the tasks put by line 134. The progress bar is left out
  (\<^verbatim>\<open>HAS_TQDM\<close> false).
\<close>

record state =
  queue :: "task list"
  unfinished :: int
  results :: "string set"
  processed_queries :: "string set"
  lock :: "nat option"
  shutdown_flag :: bool
  workers :: "wstate list"
  coordinator :: mstate
  saved :: "string list"
  stdout :: "line list"
  requests :: "(string \<times> int) list"
  children :: "(string \<times> int) list"

definition num_threads :: "crawler \<Rightarrow> nat" where
  "num_threads c = nat (num_workers c)"

text \<open>The state in which \<^verbatim>\<open>run\<close> reaches the loop that starts the threads.\<close>

definition init :: "crawler \<Rightarrow> state" where
  "init c =
     \<lparr> queue = [(Some (main_keyword c), 0)],
       unfinished = 1,
       results = {},
       processed_queries = {},
       lock = None,
       shutdown_flag = False,
       workers = replicate (num_threads c) Unstarted,
       coordinator = StartThreads 0,
       saved = [],
       stdout = [],
       requests = [],
       children = [] \<rparr>"

subsection \<open>Queue operations\<close>

text \<open>
  \<^verbatim>\<open>Queue.put\<close> appends and counts the task as unfinished; \<^verbatim>\<open>task_done\<close> counts one
  down. (Python raises \<^verbatim>\<open>ValueError\<close> when the counter would fall below zero; every
  \<^verbatim>\<open>task_done\<close> of the program follows a \<^verbatim>\<open>get\<close> of its own.)
\<close>

definition put :: "task \<Rightarrow> state \<Rightarrow> state" where
  "put t st = st\<lparr>queue := queue st @ [t], unfinished := unfinished st + 1\<rparr>"

definition task_done :: "state \<Rightarrow> state" where
  "task_done st = st\<lparr>unfinished := unfinished st - 1\<rparr>"

definition at_worker :: "nat \<Rightarrow> wstate \<Rightarrow> state \<Rightarrow> state" where
  "at_worker i w st = st\<lparr>workers := (workers st)[i := w]\<rparr>"

definition say :: "line list \<Rightarrow> state \<Rightarrow> state" where
  "say ls st = st\<lparr>stdout := stdout st @ ls\<rparr>"

subsection \<open>One step of a worker\<close>

text \<open>What the environment hands to the worker that moves.\<close>

datatype stimulus =
    Tick
  | QueueTimeout
  | Reply response
  | WriteFails

text \<open>
  \<open>worker_step c i x w st\<close> is one step of worker \<open>i\<close>, which is at \<open>w\<close>. A worker that
  cannot move (blocked on the empty queue or on the held lock, or offered a stimulus that
  does not fit its place) leaves the state as it is.
\<close>

definition worker_step :: "crawler \<Rightarrow> nat \<Rightarrow> stimulus \<Rightarrow> wstate \<Rightarrow> state \<Rightarrow> state" where
  "worker_step c i x w st =
     (case (w, x) of
        (Top, Tick) \<Rightarrow>
          at_worker i (if shutdown_flag st then Stopped else Waiting) st
      | (Waiting, Tick) \<Rightarrow>
          (case queue st of
             [] \<Rightarrow> st
           | t # ts \<Rightarrow> at_worker i (Got t) (st\<lparr>queue := ts\<rparr>))
      | (Waiting, QueueTimeout) \<Rightarrow>
          (if queue st = [] then at_worker i TimedOut st else st)
      | (TimedOut, Tick) \<Rightarrow>
          at_worker i (if queue st = [] \<or> shutdown_flag st then Stopped else Top) st
      | (Got (query, depth), Tick) \<Rightarrow>
          (case query of
             None \<Rightarrow> at_worker i Stopped (task_done st)
           | Some q \<Rightarrow>
               if q \<in> processed_queries st then at_worker i Top (task_done st)
               else if depth \<ge> max_depth c then at_worker i Top (task_done st)
               else at_worker i (Claiming q depth) st)
      | (Claiming q depth, Tick) \<Rightarrow>
          at_worker i (Fetching q depth)
            (say [Processing depth q]
               (st\<lparr>processed_queries := insert q (processed_queries st)\<rparr>))
      | (Fetching q depth, Reply r) \<Rightarrow>
          (case get_suggestions c q r of
             (out, Inr suggestions) \<Rightarrow>
               at_worker i (AwaitLock suggestions depth)
                 (say out (st\<lparr>requests := requests st @ [(q, depth)]\<rparr>))
           | (out, Inl e) \<Rightarrow>
               at_worker i Top
                 (task_done (say (out @ [TaskError e])
                    (st\<lparr>requests := requests st @ [(q, depth)]\<rparr>))))
      | (AwaitLock suggestions depth, Tick) \<Rightarrow>
          (if lock st = None
           then at_worker i (Recording suggestions depth) (st\<lparr>lock := Some i\<rparr>)
           else st)
      | (Recording [] depth, Tick) \<Rightarrow>
          at_worker i Acking (st\<lparr>lock := None\<rparr>)
      | (Recording (s # rest) depth, Tick) \<Rightarrow>
          at_worker i (if s \<in> results st then Recording rest depth else Adding s rest depth) st
      | (Adding s rest depth, Tick) \<Rightarrow>
          at_worker i (Recording rest depth)
            (put (Some s, depth + 1)
               (st\<lparr>results := insert s (results st),
                   saved := saved st @ [s],
                   children := children st @ [(s, depth + 1)]\<rparr>))
      | (Adding s rest depth, WriteFails) \<Rightarrow>
          at_worker i Top
            (task_done (say [TaskError OSError]
               (st\<lparr>results := insert s (results st), lock := None\<rparr>)))
      | (Acking, Tick) \<Rightarrow> at_worker i Top (task_done st)
      | _ \<Rightarrow> st)"

subsection \<open>One step of the main thread\<close>

text \<open>
  \<^verbatim>\<open>queue.join\<close> returns when the counter of unfinished tasks is zero. Joining the threads
  with a timeout always returns. \<^verbatim>\<open>cleanup\<close> sets the flag, empties the queue with
  \<^verbatim>\<open>get_nowait\<close> and \<^verbatim>\<open>task_done\<close>, and puts the stop signals.
\<close>

fun main_step :: "crawler \<Rightarrow> mstate \<Rightarrow> state \<Rightarrow> state" where
  "main_step c (StartThreads k) st =
     (if k < num_threads c
      then at_worker k Top (st\<lparr>coordinator := StartThreads (Suc k)\<rparr>)
      else st\<lparr>coordinator := Join\<rparr>)"
| "main_step c Join st = (if unfinished st = 0 then st\<lparr>coordinator := Sleep2\<rparr> else st)"
| "main_step c Sleep2 st = st\<lparr>coordinator := SendStop (num_threads c)\<rparr>"
| "main_step c (SendStop (Suc k)) st = put (None, 0) (st\<lparr>coordinator := SendStop k\<rparr>)"
| "main_step c (SendStop 0) st = st\<lparr>coordinator := JoinThreads\<rparr>"
| "main_step c JoinThreads st = st\<lparr>coordinator := Finally\<rparr>"
| "main_step c Handler st = say [Interrupted] (st\<lparr>coordinator := Drain, shutdown_flag := True\<rparr>)"
| "main_step c Drain st =
     (if queue st = [] then st\<lparr>coordinator := CleanupStop (num_threads c)\<rparr>
      else st\<lparr>coordinator := DrainGet\<rparr>)"
| "main_step c DrainGet st =
     (case queue st of
        [] \<Rightarrow> st\<lparr>coordinator := CleanupStop (num_threads c)\<rparr>
      | t # ts \<Rightarrow> task_done (st\<lparr>queue := ts, coordinator := Drain\<rparr>))"
| "main_step c (CleanupStop (Suc k)) st = put (None, 0) (st\<lparr>coordinator := CleanupStop k\<rparr>)"
| "main_step c (CleanupStop 0) st = st\<lparr>coordinator := CleanupJoin\<rparr>"
| "main_step c CleanupJoin st = st\<lparr>coordinator := Finally\<rparr>"
| "main_step c Finally st = st\<lparr>coordinator := Printing\<rparr>"
| "main_step c Printing st =
     say [Summary (card (results st)) (output_file c)] (st\<lparr>coordinator := Done\<rparr>)"
| "main_step c Done st = st"
| "main_step c Aborted st = st"

text \<open>
  A \<^verbatim>\<open>KeyboardInterrupt\<close> is raised in the main thread wherever it is. Inside the
  \<^verbatim>\<open>try\<close> body the \<^verbatim>\<open>except\<close> clause catches it. Before the \<^verbatim>\<open>try\<close>, inside the
  \<^verbatim>\<open>except\<close> clause, in the \<^verbatim>\<open>finally\<close> clause and after it, nothing catches it and
  it leaves \<^verbatim>\<open>run\<close>.
\<close>

fun interrupt :: "mstate \<Rightarrow> mstate" where
  "interrupt Join = Handler"
| "interrupt Sleep2 = Handler"
| "interrupt (SendStop k) = Handler"
| "interrupt JoinThreads = Handler"
| "interrupt Done = Done"
| "interrupt m = Aborted"

subsection \<open>Runs\<close>

datatype event =
    Worker nat stimulus
  | Coordinator
  | Interrupt

fun step :: "crawler \<Rightarrow> state \<Rightarrow> event \<Rightarrow> state" where
  "step c st (Worker i x) =
     (if i < length (workers st) then worker_step c i x (workers st ! i) st else st)"
| "step c st Coordinator = main_step c (coordinator st) st"
| "step c st Interrupt = st\<lparr>coordinator := interrupt (coordinator st)\<rparr>"

fun exec :: "crawler \<Rightarrow> state \<Rightarrow> event list \<Rightarrow> state" where
  "exec c st [] = st"
| "exec c st (e # es) = exec c (step c st e) es"

text \<open>The states of a run of the crawler, and the run itself.\<close>

definition run :: "crawler \<Rightarrow> event list \<Rightarrow> state" where
  "run c es = exec c (init c) es"

subsection \<open>Example inputs\<close>

text \<open>
  A crawler for the keyword \<^verbatim>\<open>Rust\<close> with one worker and depth two, the state in which
  its worker waits for the reply to the seed query, and a state in which a waiting worker
  finds a stop signal at the head of the queue.
\<close>

definition rust_crawler :: crawler where
  "rust_crawler = SuggestionWorker ''Rust'' ''results'' 1 2 ''20240101_120000''"

definition rust_fetching :: state where
  "rust_fetching =
     run rust_crawler [Coordinator, Worker 0 Tick, Worker 0 Tick, Worker 0 Tick, Worker 0 Tick]"

definition stop_example :: state where
  "stop_example =
     (init rust_crawler)\<lparr>queue := [(None, 0)], workers := [Waiting], coordinator := JoinThreads\<rparr>"

subsection \<open>Invariants of the runs\<close>










section \<open>Properties\<close>

subsection \<open>Evaluation and general facts\<close>

lemmas ops = at_worker_def put_def task_done_def say_def

lemmas eval_simps = run_def init_def rust_crawler_def SuggestionWorker_def num_threads_def
  worker_step_def at_worker_def put_def task_done_def say_def get_suggestions_def lower_def
  lower_char_def char_of_def bit_Suc_0_iff sublist_code path_join_def

lemma rust_fetching_eq:
  "rust_fetching =
     \<lparr> queue = [], unfinished = 1, results = {}, processed_queries = {''rust''},
       lock = None, shutdown_flag = False, workers = [Fetching ''rust'' 0],
       coordinator = StartThreads 1, saved = [], stdout = [Processing 0 ''rust''],
       requests = [], children = [] \<rparr>"
  by (simp add: rust_fetching_def eval_simps)


lemma exec_append: "exec c st (es @ fs) = exec c (exec c st es) fs"
  by (induction es arbitrary: st) auto

subsection \<open>The steps of a worker, case by case\<close>



subsection \<open>The invariants hold in every run\<close>














subsection \<open>Failing lookups\<close>

text \<open>
  Claim C4, as amended. The lookup returns the empty list and prints the failure when
  the HTTP exchange raises a \<^verbatim>\<open>requests.RequestException\<close> and when the reply does not
  parse (\<^verbatim>\<open>ET.ParseError\<close>): the worker goes on to the recording with no candidate. A
  reply that parses but has a \<^verbatim>\<open>suggestion\<close> element without \<^verbatim>\<open>data\<close> makes the
  lookup raise \<^verbatim>\<open>AttributeError\<close> and print nothing; the worker loop catches it, prints
  the error, acknowledges the task and goes back to the head of its loop. In each of the
  three cases the request is counted and nothing else changes.
\<close>

theorem lookup_failures_handled:
  "i < length (workers st) \<Longrightarrow> workers st ! i = Fetching q d \<Longrightarrow>
     get_suggestions c q (RequestException k) = ([NetworkError q k], Inr []) \<and>
     get_suggestions c q (ParseError m) = ([XmlError q m], Inr []) \<and>
     step c st (Worker i (Reply (RequestException k))) =
       st\<lparr>workers := (workers st)[i := AwaitLock [] d],
          stdout := stdout st @ [NetworkError q k],
          requests := requests st @ [(q, d)]\<rparr> \<and>
     step c st (Worker i (Reply (ParseError m))) =
       st\<lparr>workers := (workers st)[i := AwaitLock [] d],
          stdout := stdout st @ [XmlError q m],
          requests := requests st @ [(q, d)]\<rparr> \<and>
     (None \<in> set ds \<longrightarrow>
        get_suggestions c q (Document ds) = ([], Inl AttributeError) \<and>
        step c st (Worker i (Reply (Document ds))) =
          st\<lparr>workers := (workers st)[i := Top],
             unfinished := unfinished st - 1,
             stdout := stdout st @ [TaskError AttributeError],
             requests := requests st @ [(q, d)]\<rparr>)"
  by (simp add: worker_step_def get_suggestions_def ops)

theorem lookup_failures_handled_witness:
  "0 < length (workers rust_fetching) \<and> workers rust_fetching ! 0 = Fetching ''rust'' 0 \<and>
   None \<in> set [Some ''rust lang'', None] \<and>
   stdout (step rust_crawler rust_fetching
             (Worker 0 (Reply (RequestException ''ConnectTimeout'')))) =
     [Processing 0 ''rust'', NetworkError ''rust'' ''ConnectTimeout''] \<and>
   workers (step rust_crawler rust_fetching
              (Worker 0 (Reply (ParseError ''no element found'')))) =
     [AwaitLock [] 0] \<and>
   stdout (step rust_crawler rust_fetching
             (Worker 0 (Reply (Document [Some ''rust lang'', None])))) =
     [Processing 0 ''rust'', TaskError AttributeError] \<and>
   unfinished (step rust_crawler rust_fetching
                 (Worker 0 (Reply (Document [Some ''rust lang'', None])))) = 0"
  using lookup_failures_handled [where i = 0 and st = rust_fetching and q = "''rust''"
      and d = 0 and c = rust_crawler and k = "''ConnectTimeout''" and m = "''no element found''"
      and ds = "[Some ''rust lang'', None]"]
  by (simp add: rust_fetching_eq)

text \<open>
  The claim as it stands fails: on a reply that parses and holds a \<^verbatim>\<open>suggestion\<close>
  element without the \<^verbatim>\<open>data\<close> attribute the lookup returns no list, it raises, and it
  prints nothing.
\<close>

theorem lookup_raises_counterexample:
  "get_suggestions rust_crawler ''rust'' (Document [Some ''rust lang'', None]) =
     ([], Inl AttributeError)"
  by (simp add: get_suggestions_def)

(*C7*)
subsection \<open>Stop signals\<close>

text \<open>
  Claim C7. A worker that has taken a stop signal (a task whose query is \<^verbatim>\<open>None\<close>) from
  the queue acknowledges it with \<^verbatim>\<open>task_done\<close> and leaves its loop; it makes no lookup,
  writes nothing and puts nothing. The second part follows the worker from the blocking
  \<^verbatim>\<open>get\<close> on.
\<close>

theorem sentinel_stops_worker:
  "i < length (workers st) \<Longrightarrow>
     (workers st ! i = Got (None, d) \<longrightarrow>
        step c st (Worker i Tick) =
          st\<lparr>workers := (workers st)[i := Stopped], unfinished := unfinished st - 1\<rparr>) \<and>
     (workers st ! i = Waiting \<and> queue st = (None, d) # ts \<longrightarrow>
        exec c st [Worker i Tick, Worker i Tick] =
          st\<lparr>queue := ts, workers := (workers st)[i := Stopped],
             unfinished := unfinished st - 1\<rparr>)"
  by (auto simp: worker_step_def ops)

theorem sentinel_stops_worker_witness:
  "0 < length (workers stop_example) \<and> workers stop_example ! 0 = Waiting \<and>
   queue stop_example = [(None, 0)] \<and>
   workers (exec rust_crawler stop_example [Worker 0 Tick, Worker 0 Tick]) = [Stopped] \<and>
   unfinished (exec rust_crawler stop_example [Worker 0 Tick, Worker 0 Tick]) = 0 \<and>
   requests (exec rust_crawler stop_example [Worker 0 Tick, Worker 0 Tick]) = []"
  using sentinel_stops_worker [where i = 0 and st = stop_example and d = 0 and ts = "[]"
      and c = rust_crawler]
  by (simp add: stop_example_def init_def rust_crawler_def SuggestionWorker_def num_threads_def)

(*C2*)
subsection \<open>The depth limit\<close>


subsection \<open>The keyword filter\<close>


subsection \<open>Depth limit zero\<close>




end
